theory Spec2Isabelle
  imports Main "HOL-Library.Word"
begin

section \<open>Data model (models/person.go)\<close>

text \<open>
  \<open>uuid.UUID\<close> is a 16-byte array, read here as one 128-bit word (big-endian); its zero
  value \<open>uuid.Nil\<close> is the word 0. \<open>time.Time\<close> is an instant, counted in nanoseconds
  from January 1 of year 1, 00:00:00 UTC, so that the zero value of \<open>time.Time\<close> is 0.
  Go's \<open>uint\<close> identifiers are natural numbers; the only place where a width matters is
  \<open>strconv.ParseUint\<close>, where it is written out.
\<close>

type_synonym UUID = "128 word"
type_synonym Time = int

definition uuid_Nil :: UUID where
  "uuid_Nil = 0"

definition time_zero :: Time where
  "time_zero = 0"

record Person =
  ID :: nat
  ExternalID :: UUID
  Name :: string
  Email :: string
  DateOfBirth :: Time
  CreatedAt :: Time
  UpdatedAt :: Time

text \<open>
  The three structs of the source share field names; the fields of the request carry the
  prefix \<open>req_\<close> and those of the response the prefix \<open>resp_\<close>.
\<close>

record SavePersonRequest =
  req_ExternalID :: UUID
  req_Name :: string
  req_Email :: string
  req_DateOfBirth :: Time

record PersonResponse =
  resp_ExternalID :: UUID
  resp_Name :: string
  resp_Email :: string
  resp_DateOfBirth :: Time

record ErrorResponse =
  Error :: string

text \<open>\<open>func (p *Person) ToResponse() PersonResponse\<close>\<close>

definition ToResponse :: "Person \<Rightarrow> PersonResponse" where
  "ToResponse p =
     \<lparr> resp_ExternalID = ExternalID p,
       resp_Name = Name p,
       resp_Email = Email p,
       resp_DateOfBirth = DateOfBirth p \<rparr>"

text \<open>
  \<open>func FromSaveRequest(req SavePersonRequest) Person\<close>: the fields the composite
  literal does not mention get Go's zero values.
\<close>

definition FromSaveRequest :: "SavePersonRequest \<Rightarrow> Person" where
  "FromSaveRequest req =
     \<lparr> ID = 0,
       ExternalID = req_ExternalID req,
       Name = req_Name req,
       Email = req_Email req,
       DateOfBirth = req_DateOfBirth req,
       CreatedAt = time_zero,
       UpdatedAt = time_zero \<rparr>"

section \<open>Responses written by the handlers\<close>

text \<open>
  \<open>c.JSON(code, obj)\<close> writes a status code and a JSON body. The three kinds of body the
  service writes are a \<open>PersonResponse\<close>, an \<open>ErrorResponse\<close> and the map
  \<open>gin.H{"status": "ok"}\<close> of the health check (an association list of keys and values).
\<close>

datatype body =
    PersonBody PersonResponse
  | ErrorBody ErrorResponse
  | MapBody "(string \<times> string) list"

record response =
  status :: nat
  body :: body

definition JSON :: "nat \<Rightarrow> body \<Rightarrow> response" where
  "JSON code obj = \<lparr> status = code, body = obj \<rparr>"

definition StatusOK :: nat where "StatusOK = 200"
definition StatusCreated :: nat where "StatusCreated = 201"
definition StatusBadRequest :: nat where "StatusBadRequest = 400"
definition StatusNotFound :: nat where "StatusNotFound = 404"
definition StatusConflict :: nat where "StatusConflict = 409"
definition StatusInternalServerError :: nat where "StatusInternalServerError = 500"

section \<open>Request binding (\<open>c.ShouldBindJSON\<close> on \<open>SavePersonRequest\<close>)\<close>

text \<open>
  The request body, as the JSON decoder sees it. A body that is neither a JSON object nor the
  literal \<open>null\<close> is \<open>Unparseable\<close>; \<open>null\<close> decodes like the empty object. Of an object
  only the four members named by the \<open>json\<close> tags of \<open>SavePersonRequest\<close> matter: each is
  absent (\<open>None\<close>) or holds \<open>null\<close>, a JSON string, or a value of another JSON kind.
\<close>

datatype jvalue = JNull | JString string | JNonString

record jobject =
  j_external_id :: "jvalue option"
  j_name :: "jvalue option"
  j_email :: "jvalue option"
  j_date_of_birth :: "jvalue option"

datatype payload = Unparseable | JObject jobject

text \<open>
  What binding can fail with: an error of \<open>encoding/json\<close>, or the validator's list of
  failed (field, tag) pairs.
\<close>

datatype bind_error = UnmarshalError | ValidationErrors "(string \<times> string) list"

text \<open>
  The functions of the libraries the binding calls are not part of the repository; they
  are parameters of the model: \<open>uuid.UUID.UnmarshalText\<close>, \<open>time.Time.UnmarshalJSON\<close> on
  the contents of a JSON string, the validator's \<open>email\<close> rule, and the text \<open>err.Error()\<close>
  of a binding error.
\<close>

record lib =
  uuid_UnmarshalText :: "string \<Rightarrow> UUID option"
  time_UnmarshalJSON :: "string \<Rightarrow> Time option"
  validator_email :: "string \<Rightarrow> bool"
  err_Error :: "bind_error \<Rightarrow> string"

text \<open>
  Decoding one member into a field that holds its zero value \<open>z\<close>: an absent member and
  \<open>null\<close> leave the field as it is, a string goes through the field type's parser, and any
  other JSON value is a type error.
\<close>

fun decode_field :: "(string \<Rightarrow> 'a option) \<Rightarrow> 'a \<Rightarrow> jvalue option \<Rightarrow> 'a option" where
  "decode_field parse z None = Some z"
| "decode_field parse z (Some JNull) = Some z"
| "decode_field parse z (Some (JString s)) = parse s"
| "decode_field parse z (Some JNonString) = None"

definition json_Unmarshal :: "lib \<Rightarrow> payload \<Rightarrow> SavePersonRequest option" where
  "json_Unmarshal L b =
     (case b of
        Unparseable \<Rightarrow> None
      | JObject obj \<Rightarrow>
          (case decode_field (uuid_UnmarshalText L) uuid_Nil (j_external_id obj) of
             None \<Rightarrow> None
           | Some ext \<Rightarrow>
          (case decode_field Some [] (j_name obj) of
             None \<Rightarrow> None
           | Some nm \<Rightarrow>
          (case decode_field Some [] (j_email obj) of
             None \<Rightarrow> None
           | Some em \<Rightarrow>
          (case decode_field (time_UnmarshalJSON L) time_zero (j_date_of_birth obj) of
             None \<Rightarrow> None
           | Some dob \<Rightarrow>
               Some \<lparr> req_ExternalID = ext, req_Name = nm,
                      req_Email = em, req_DateOfBirth = dob \<rparr>)))))"

text \<open>
  The \<open>binding\<close> tags of \<open>SavePersonRequest\<close>: \<open>required\<close> on every field, and
  \<open>required,email\<close> on Email. The validator's \<open>required\<close> fails on the zero value of the
  field's type; the tags of one field are tried in order and the first failure is the one
  reported for that field.
\<close>

definition validate :: "lib \<Rightarrow> SavePersonRequest \<Rightarrow> (string \<times> string) list" where
  "validate L req =
     (if req_ExternalID req = uuid_Nil then [(''ExternalID'', ''required'')] else [])
   @ (if req_Name req = [] then [(''Name'', ''required'')] else [])
   @ (if req_Email req = [] then [(''Email'', ''required'')]
      else if \<not> validator_email L (req_Email req) then [(''Email'', ''email'')] else [])
   @ (if req_DateOfBirth req = time_zero then [(''DateOfBirth'', ''required'')] else [])"

definition ShouldBindJSON :: "lib \<Rightarrow> payload \<Rightarrow> bind_error + SavePersonRequest" where
  "ShouldBindJSON L b =
     (case json_Unmarshal L b of
        None \<Rightarrow> Inl UnmarshalError
      | Some req \<Rightarrow>
          (case validate L req of
             [] \<Rightarrow> Inr req
           | e # es \<Rightarrow> Inl (ValidationErrors (e # es))))"

section \<open>The database behind \<open>h.db\<close>\<close>

text \<open>
  The table \<open>persons\<close> is the list of its rows in insertion order, with the next value of
  the serial primary key. Every statement can fail for reasons outside the table
  (connection, timeout): the outcome \<open>io\<close> of each statement is an input of the model.
\<close>

record store =
  rows :: "Person list"
  next_id :: nat

datatype io = IoOk | IoFail

datatype db_error = ErrRecordNotFound | ErrStorage

text \<open>\<open>h.db.Where("external_id = ?", x).First(&existingPerson)\<close>\<close>

definition db_Where_external_id_First :: "io \<Rightarrow> store \<Rightarrow> UUID \<Rightarrow> db_error + Person" where
  "db_Where_external_id_First out st x =
     (case out of
        IoFail \<Rightarrow> Inl ErrStorage
      | IoOk \<Rightarrow>
          (case find (\<lambda>p. ExternalID p = x) (rows st) of
             None \<Rightarrow> Inl ErrRecordNotFound
           | Some p \<Rightarrow> Inr p))"

text \<open>\<open>h.db.First(&person, uint(id))\<close>\<close>

definition db_First :: "io \<Rightarrow> store \<Rightarrow> nat \<Rightarrow> db_error + Person" where
  "db_First out st i =
     (case out of
        IoFail \<Rightarrow> Inl ErrStorage
      | IoOk \<Rightarrow>
          (case find (\<lambda>p. ID p = i) (rows st) of
             None \<Rightarrow> Inl ErrRecordNotFound
           | Some p \<Rightarrow> Inr p))"

text \<open>
  \<open>func (p *Person) BeforeCreate(*gorm.DB) error\<close>; \<open>fresh\<close> is the value \<open>uuid.New()\<close>
  would return.
\<close>

definition BeforeCreate :: "UUID \<Rightarrow> Person \<Rightarrow> Person" where
  "BeforeCreate fresh p =
     (if ExternalID p = uuid_Nil then p\<lparr>ExternalID := fresh\<rparr> else p)"

text \<open>
  \<open>h.db.Create(&person)\<close>: the hook runs, a creation or update timestamp that still has
  the zero value is set to the current time, and the row is inserted. The column
  \<open>external_id\<close> is declared \<open>unique\<close> in the \<open>gorm\<close> tag of \<open>Person.ExternalID\<close>, so the
  insert of a second row with the same value fails. The handler passes a Person whose ID
  is zero: on success the row gets the next primary key, which is written back into the
  caller's struct.
\<close>

definition auto_time :: "Time \<Rightarrow> Time \<Rightarrow> Time" where
  "auto_time now t = (if t = time_zero then now else t)"

definition db_Create ::
  "io \<Rightarrow> UUID \<Rightarrow> Time \<Rightarrow> store \<Rightarrow> Person \<Rightarrow> db_error + (Person \<times> store)" where
  "db_Create out fresh now st p0 =
     (let p = (BeforeCreate fresh p0)
                \<lparr>CreatedAt := auto_time now (CreatedAt p0),
                 UpdatedAt := auto_time now (UpdatedAt p0)\<rparr> in
      case out of
        IoFail \<Rightarrow> Inl ErrStorage
      | IoOk \<Rightarrow>
          if ExternalID p \<in> set (map ExternalID (rows st)) then Inl ErrStorage
          else
            (let p' = p\<lparr>ID := next_id st\<rparr>
             in Inr (p', \<lparr> rows = rows st @ [p'], next_id = Suc (next_id st) \<rparr>)))"

section \<open>Handlers (handlers/person.go)\<close>

text \<open>
  What a request meets outside the handler's control: the outcome of the lookup and of the
  insert, the clock, and the random UUID.
\<close>

record env =
  lookup_io :: io
  insert_io :: io
  clock :: Time
  new_uuid :: UUID

text \<open>\<open>func (h *PersonHandler) SavePerson(c *gin.Context)\<close>\<close>

definition SavePerson :: "lib \<Rightarrow> env \<Rightarrow> store \<Rightarrow> payload \<Rightarrow> response \<times> store" where
  "SavePerson L e st b =
     (case ShouldBindJSON L b of
        Inl err \<Rightarrow>
          (JSON StatusBadRequest
             (ErrorBody \<lparr> Error = ''Invalid request: '' @ err_Error L err \<rparr>), st)
      | Inr req \<Rightarrow>
          (case db_Where_external_id_First (lookup_io e) st (req_ExternalID req) of
             Inr existingPerson \<Rightarrow>
               (JSON StatusConflict
                  (ErrorBody \<lparr> Error = ''Person with this external_id already exists'' \<rparr>), st)
           | Inl err \<Rightarrow>
               (let person = FromSaveRequest req in
                case db_Create (insert_io e) (new_uuid e) (clock e) st person of
                  Inl err \<Rightarrow>
                    (JSON StatusInternalServerError
                       (ErrorBody \<lparr> Error = ''Failed to save person'' \<rparr>), st)
                | Inr (person', st') \<Rightarrow>
                    (JSON StatusCreated (PersonBody (ToResponse person')), st'))))"

text \<open>
  \<open>strconv.ParseUint(idStr, 10, 32)\<close>: the empty string and any byte that is not a decimal
  digit are syntax errors; a value above \<open>1<<32 - 1\<close> is a range error. The accumulator is
  a \<open>uint64\<close>: the multiplication is guarded by the cutoff and the addition is taken modulo
  \<open>2 ^ 64\<close>, as in the library's loop.
\<close>

datatype NumError = ErrSyntax | ErrRange

definition is_digit :: "char \<Rightarrow> bool" where
  "is_digit c = (48 \<le> (of_char c :: nat) \<and> (of_char c :: nat) \<le> 57)"

definition digit_val :: "char \<Rightarrow> nat" where
  "digit_val c = of_char c - 48"

definition maxVal :: nat where
  "maxVal = 2 ^ 32 - 1"

definition cutoff :: nat where
  "cutoff = (2 ^ 64 - 1) div 10 + 1"

fun ParseUint_loop :: "nat \<Rightarrow> string \<Rightarrow> NumError + nat" where
  "ParseUint_loop n [] = Inr n"
| "ParseUint_loop n (c # cs) =
     (if \<not> is_digit c then Inl ErrSyntax
      else if cutoff \<le> n then Inl ErrRange
      else if (n * 10 + digit_val c) mod 2 ^ 64 < n * 10
              \<or> maxVal < (n * 10 + digit_val c) mod 2 ^ 64 then Inl ErrRange
      else ParseUint_loop ((n * 10 + digit_val c) mod 2 ^ 64) cs)"

definition ParseUint :: "string \<Rightarrow> NumError + nat" where
  "ParseUint s = (if s = [] then Inl ErrSyntax else ParseUint_loop 0 s)"

text \<open>\<open>func (h *PersonHandler) GetPerson(c *gin.Context)\<close>; \<open>idStr\<close> is \<open>c.Param("id")\<close>.\<close>

definition GetPerson :: "env \<Rightarrow> store \<Rightarrow> string \<Rightarrow> response" where
  "GetPerson e st idStr =
     (case ParseUint idStr of
        Inl err \<Rightarrow>
          JSON StatusBadRequest (ErrorBody \<lparr> Error = ''Invalid ID format'' \<rparr>)
      | Inr i \<Rightarrow>
          (case db_First (lookup_io e) st i of
             Inl err \<Rightarrow>
               if err = ErrRecordNotFound
               then JSON StatusNotFound (ErrorBody \<lparr> Error = ''Person not found'' \<rparr>)
               else JSON StatusInternalServerError
                      (ErrorBody \<lparr> Error = ''Failed to retrieve person'' \<rparr>)
           | Inr person \<Rightarrow> JSON StatusOK (PersonBody (ToResponse person))))"

section \<open>Routes (main.go)\<close>

text \<open>
  The three routes \<open>main\<close> registers: \<open>GET /health\<close>, \<open>POST /save\<close> with its body and
  \<open>GET /:id\<close> with the path parameter. A request is served against the current table and
  returns the response with the table afterwards.
\<close>

datatype request = Health | Save payload | Get string

definition health :: response where
  "health = JSON 200 (MapBody [(''status'', ''ok'')])"

definition serve :: "lib \<Rightarrow> env \<Rightarrow> store \<Rightarrow> request \<Rightarrow> response \<times> store" where
  "serve L e st r =
     (case r of
        Health \<Rightarrow> (health, st)
      | Save b \<Rightarrow> SavePerson L e st b
      | Get idStr \<Rightarrow> (GetPerson e st idStr, st))"

text \<open>Requests served one after the other, each with its own environment.\<close>

fun run :: "lib \<Rightarrow> store \<Rightarrow> (env \<times> request) list \<Rightarrow> store" where
  "run L st [] = st"
| "run L st ((e, r) # rs) = run L (snd (serve L e st r)) rs"

section \<open>Vocabulary of the properties\<close>

text \<open>The number a string of decimal digits denotes.\<close>

definition decimal_from :: "nat \<Rightarrow> string \<Rightarrow> nat" where
  "decimal_from n s = foldl (\<lambda>a c. a * 10 + digit_val c) n s"

definition decimal :: "string \<Rightarrow> nat" where
  "decimal s = decimal_from 0 s"

text \<open>
  The specification's wording for the path parameter, "parses as a positive integer": a
  non-empty string of decimal digits that denotes a number above zero.
\<close>

definition spec_positive_integer :: "string \<Rightarrow> bool" where
  "spec_positive_integer s = (s \<noteq> [] \<and> list_all is_digit s \<and> 0 < decimal s)"

text \<open>The external identifiers held by the table.\<close>

definition external_ids :: "store \<Rightarrow> UUID list" where
  "external_ids st = map ExternalID (rows st)"

text \<open>\<open>assert.Contains\<close> of the tests on strings: \<open>sub\<close> occurs in \<open>s\<close>.\<close>

fun Contains :: "string \<Rightarrow> string \<Rightarrow> bool" where
  "Contains [] sub = (sub = [])"
| "Contains (c # cs) sub = (take (length sub) (c # cs) = sub \<or> Contains cs sub)"

section \<open>A concrete instance for evaluation\<close>

text \<open>
  The sample request of the README, and an instance of the library parameters that is
  defined on its values: the sample UUID and the nil UUID in canonical form, the sample
  timestamp, addresses with one \<open>@\<close> between two non-empty parts, and a message that
  lists the failed fields and tags.
\<close>

definition sample_uuid :: UUID where
  "sample_uuid = 113059749145936325402354257176981405696"

definition sample_time :: Time where
  "sample_time = 62766792000000000000"

definition sample_email_ok :: "string \<Rightarrow> bool" where
  "sample_email_ok s =
     (takeWhile (\<lambda>c. c \<noteq> CHR ''@'') s \<noteq> []
      \<and> length (dropWhile (\<lambda>c. c \<noteq> CHR ''@'') s) > 1
      \<and> CHR ''@'' \<notin> set (tl (dropWhile (\<lambda>c. c \<noteq> CHR ''@'') s)))"

fun sample_message :: "bind_error \<Rightarrow> string" where
  "sample_message UnmarshalError = ''cannot unmarshal request body''"
| "sample_message (ValidationErrors es) =
     concat (map (\<lambda>(f, t). ''Field validation for '' @ f
                   @ '' failed on the '' @ t @ '' tag; '') es)"

definition sample_lib :: lib where
  "sample_lib =
     \<lparr> uuid_UnmarshalText =
         (\<lambda>s. if s = ''550e8400-e29b-41d4-a716-446655440000'' then Some sample_uuid
              else if s = ''00000000-0000-0000-0000-000000000000'' then Some uuid_Nil
              else None),
       time_UnmarshalJSON =
         (\<lambda>s. if s = ''1990-01-01T12:00:00Z'' then Some sample_time else None),
       validator_email = sample_email_ok,
       err_Error = sample_message \<rparr>"

definition sample_object :: jobject where
  "sample_object =
     \<lparr> j_external_id = Some (JString ''550e8400-e29b-41d4-a716-446655440000''),
       j_name = Some (JString ''John Doe''),
       j_email = Some (JString ''john@example.com''),
       j_date_of_birth = Some (JString ''1990-01-01T12:00:00Z'') \<rparr>"

definition sample_request :: SavePersonRequest where
  "sample_request =
     \<lparr> req_ExternalID = sample_uuid, req_Name = ''John Doe'',
       req_Email = ''john@example.com'', req_DateOfBirth = sample_time \<rparr>"

definition sample_person :: Person where
  "sample_person =
     \<lparr> ID = 1, ExternalID = sample_uuid, Name = ''John Doe'',
       Email = ''john@example.com'', DateOfBirth = sample_time,
       CreatedAt = 63000000000000000000, UpdatedAt = 63000000000000000000 \<rparr>"

definition empty_store :: store where
  "empty_store = \<lparr> rows = [], next_id = 1 \<rparr>"

definition sample_store :: store where
  "sample_store = \<lparr> rows = [sample_person], next_id = 2 \<rparr>"

definition sample_env :: "io \<Rightarrow> io \<Rightarrow> env" where
  "sample_env l i =
     \<lparr> lookup_io = l, insert_io = i, clock = 63000000000000000000, new_uuid = 42 \<rparr>"

section \<open>Facts about binding\<close>

lemma ShouldBindJSON_Inr:
  "ShouldBindJSON L b = Inr req \<longleftrightarrow> json_Unmarshal L b = Some req \<and> validate L req = []"
  by (auto simp: ShouldBindJSON_def split: option.splits list.splits)

lemma validate_Nil:
  "validate L req = [] \<longleftrightarrow>
     req_ExternalID req \<noteq> uuid_Nil \<and> req_Name req \<noteq> [] \<and> req_Email req \<noteq> []
     \<and> validator_email L (req_Email req) \<and> req_DateOfBirth req \<noteq> time_zero"
  by (auto simp: validate_def)

lemma bound_external_id_not_Nil:
  "ShouldBindJSON L b = Inr req \<Longrightarrow> req_ExternalID req \<noteq> uuid_Nil"
  by (simp add: ShouldBindJSON_Inr validate_Nil)

lemma json_Unmarshal_Some:
  "json_Unmarshal L (JObject obj) = Some req \<longleftrightarrow>
     decode_field (uuid_UnmarshalText L) uuid_Nil (j_external_id obj) = Some (req_ExternalID req)
   \<and> decode_field Some [] (j_name obj) = Some (req_Name req)
   \<and> decode_field Some [] (j_email obj) = Some (req_Email req)
   \<and> decode_field (time_UnmarshalJSON L) time_zero (j_date_of_birth obj)
       = Some (req_DateOfBirth req)"
  by (cases req) (auto simp: json_Unmarshal_def split: option.splits)

lemma decode_field_nonzero:
  "decode_field parse z v = Some x \<Longrightarrow> x \<noteq> z \<Longrightarrow>
   \<exists>s. v = Some (JString s) \<and> parse s = Some x"
  by (cases "(parse, z, v)" rule: decode_field.cases) auto

text \<open>A body binds only if each of the four members is a string its field accepts.\<close>

lemma bound_members_are_strings:
  assumes "ShouldBindJSON L (JObject obj) = Inr req"
  shows "(\<exists>s. j_external_id obj = Some (JString s)
              \<and> uuid_UnmarshalText L s = Some (req_ExternalID req))
       \<and> j_name obj = Some (JString (req_Name req))
       \<and> j_email obj = Some (JString (req_Email req))
       \<and> validator_email L (req_Email req)
       \<and> (\<exists>s. j_date_of_birth obj = Some (JString s)
              \<and> time_UnmarshalJSON L s = Some (req_DateOfBirth req))"
proof -
  from assms have dec: "json_Unmarshal L (JObject obj) = Some req"
    and val: "validate L req = []"
    by (simp_all add: ShouldBindJSON_Inr)
  note d = dec [unfolded json_Unmarshal_Some]
  note v = val [unfolded validate_Nil]
  from d v decode_field_nonzero [of "uuid_UnmarshalText L" uuid_Nil "j_external_id obj"]
  have 1: "\<exists>s. j_external_id obj = Some (JString s)
              \<and> uuid_UnmarshalText L s = Some (req_ExternalID req)"
    by simp
  from d v decode_field_nonzero [of Some "[]" "j_name obj" "req_Name req"]
  have 2: "j_name obj = Some (JString (req_Name req))"
    by auto
  from d v decode_field_nonzero [of Some "[]" "j_email obj" "req_Email req"]
  have 3: "j_email obj = Some (JString (req_Email req))"
    by auto
  from d v decode_field_nonzero [of "time_UnmarshalJSON L" time_zero "j_date_of_birth obj"]
  have 4: "\<exists>s. j_date_of_birth obj = Some (JString s)
              \<and> time_UnmarshalJSON L s = Some (req_DateOfBirth req)"
    by simp
  from 1 2 3 4 v show ?thesis by simp
qed

lemma ShouldBindJSON_Inl_or_Inr:
  "(\<exists>err. ShouldBindJSON L b = Inl err) \<or> (\<exists>req. ShouldBindJSON L b = Inr req)"
  by (cases "ShouldBindJSON L b") auto

lemma invalid_object_not_bound:
  assumes "j_external_id obj = None \<or> j_name obj = None \<or> j_email obj = None
           \<or> j_date_of_birth obj = None
           \<or> (\<exists>s. j_external_id obj = Some (JString s) \<and> uuid_UnmarshalText L s = None)
           \<or> (\<exists>s. j_email obj = Some (JString s) \<and> \<not> validator_email L s)
           \<or> (\<exists>s. j_date_of_birth obj = Some (JString s) \<and> time_UnmarshalJSON L s = None)"
  shows "ShouldBindJSON L (JObject obj) \<noteq> Inr req"
proof
  assume "ShouldBindJSON L (JObject obj) = Inr req"
  then have dec: "json_Unmarshal L (JObject obj) = Some req" and val: "validate L req = []"
    by (simp_all add: ShouldBindJSON_Inr)
  note d = dec [unfolded json_Unmarshal_Some]
  note v = val [unfolded validate_Nil]
  from assms d v show False
    by (elim disjE exE conjE) simp_all
qed

lemma sample_binds: "ShouldBindJSON sample_lib (JObject sample_object) = Inr sample_request"
  by (simp add: ShouldBindJSON_def json_Unmarshal_def validate_def sample_lib_def
      sample_object_def sample_request_def sample_email_ok_def sample_uuid_def
      sample_time_def uuid_Nil_def time_zero_def)

section \<open>Facts about the database\<close>

lemma lookup_found:
  "x \<in> set (external_ids st) \<Longrightarrow> \<exists>p. db_Where_external_id_First IoOk st x = Inr p"
  by (auto simp: db_Where_external_id_First_def external_ids_def find_None_iff
      split: option.splits)

lemma lookup_absent:
  "x \<notin> set (external_ids st) \<Longrightarrow> \<exists>err. db_Where_external_id_First out st x = Inl err"
  by (cases out)
     (auto simp: db_Where_external_id_First_def external_ids_def find_Some_iff
      split: option.splits)

lemma lookup_failed: "db_Where_external_id_First IoFail st x = Inl ErrStorage"
  by (simp add: db_Where_external_id_First_def)

lemma db_Create_Inl_store:
  "ExternalID p \<noteq> uuid_Nil \<Longrightarrow> ExternalID p \<in> set (external_ids st) \<Longrightarrow>
   \<exists>err. db_Create out fresh now st p = Inl err"
  by (cases out) (auto simp: db_Create_def BeforeCreate_def external_ids_def Let_def)

lemma db_Create_failed: "db_Create IoFail fresh now st p = Inl ErrStorage"
  by (simp add: db_Create_def Let_def)

lemma db_Create_distinct:
  "db_Create out fresh now st p = Inr (p', st') \<Longrightarrow> distinct (external_ids st) \<Longrightarrow>
   distinct (external_ids st')"
  by (cases out) (auto simp: db_Create_def external_ids_def Let_def split: if_splits)

section \<open>Facts about \<open>ParseUint\<close>\<close>

lemma decimal_from_Nil [simp]: "decimal_from n [] = n"
  by (simp add: decimal_from_def)

lemma decimal_from_Cons [simp]:
  "decimal_from n (c # cs) = decimal_from (n * 10 + digit_val c) cs"
  by (simp add: decimal_from_def)

lemma decimal_from_mono: "n \<le> decimal_from n s"
proof (induction s arbitrary: n)
  case Nil
  show ?case by simp
next
  case (Cons c cs)
  have "n \<le> n * 10 + digit_val c" by simp
  also have "\<dots> \<le> decimal_from (n * 10 + digit_val c) cs" by (rule Cons.IH)
  finally show ?case by simp
qed

lemma digit_val_le: "is_digit c \<Longrightarrow> digit_val c \<le> 9"
  unfolding is_digit_def digit_val_def by arith

lemma ParseUint_loop_char:
  "n \<le> maxVal \<Longrightarrow>
   ParseUint_loop n s = Inr m \<longleftrightarrow>
     list_all is_digit s \<and> decimal_from n s \<le> maxVal \<and> m = decimal_from n s"
proof (induction s arbitrary: n)
  case Nil
  then show ?case by auto
next
  case (Cons c cs)
  let ?n1 = "n * 10 + digit_val c"
  show ?case
  proof (cases "is_digit c")
    case False
    then show ?thesis by simp
  next
    case True
    from Cons.prems have small: "\<not> cutoff \<le> n"
      by (simp add: maxVal_def cutoff_def)
    from Cons.prems digit_val_le [OF True] have nowrap: "?n1 mod 2 ^ 64 = ?n1"
      by (simp add: maxVal_def)
    show ?thesis
    proof (cases "maxVal < ?n1")
      case over: True
      have "?n1 \<le> decimal_from ?n1 cs" by (rule decimal_from_mono)
      with over have "\<not> decimal_from ?n1 cs \<le> maxVal" by simp
      with True small nowrap over show ?thesis by simp
    next
      case False
      then have "?n1 \<le> maxVal" by simp
      from Cons.IH [OF this] True small nowrap False show ?thesis by simp
    qed
  qed
qed

lemma ParseUint_char:
  "ParseUint s = Inr m \<longleftrightarrow>
     s \<noteq> [] \<and> list_all is_digit s \<and> decimal s \<le> maxVal \<and> m = decimal s"
  using ParseUint_loop_char [of 0 s m]
  by (simp add: ParseUint_def decimal_def)

lemma ParseUint_Inl_iff:
  "(\<exists>err. ParseUint s = Inl err) \<longleftrightarrow>
     \<not> (s \<noteq> [] \<and> list_all is_digit s \<and> decimal s \<le> maxVal)"
proof (cases "ParseUint s")
  case (Inl err)
  with ParseUint_char [of s "decimal s"] show ?thesis by auto
next
  case (Inr m)
  with ParseUint_char [of s m] show ?thesis by auto
qed

lemmas ParseUint_eval =
  ParseUint_def is_digit_def digit_val_def maxVal_def cutoff_def

section \<open>Facts about the handlers\<close>

lemma JSON_eq [simp]: "JSON c b = JSON c' b' \<longleftrightarrow> c = c' \<and> b = b'"
  by (simp add: JSON_def)

lemma status_JSON [simp]: "status (JSON c b) = c"
  by (simp add: JSON_def)

lemma GetPerson_Inl:
  "ParseUint s = Inl err \<Longrightarrow>
   GetPerson e st s = JSON 400 (ErrorBody \<lparr> Error = ''Invalid ID format'' \<rparr>)"
  by (simp add: GetPerson_def StatusBadRequest_def)

lemma GetPerson_Inr_fail:
  "ParseUint s = Inr i \<Longrightarrow> lookup_io e = IoFail \<Longrightarrow>
   GetPerson e st s = JSON 500 (ErrorBody \<lparr> Error = ''Failed to retrieve person'' \<rparr>)"
  by (simp add: GetPerson_def db_First_def StatusInternalServerError_def)

lemma GetPerson_Inr_none:
  "ParseUint s = Inr i \<Longrightarrow> lookup_io e = IoOk \<Longrightarrow> find (\<lambda>p. ID p = i) (rows st) = None \<Longrightarrow>
   GetPerson e st s = JSON 404 (ErrorBody \<lparr> Error = ''Person not found'' \<rparr>)"
  by (simp add: GetPerson_def db_First_def StatusNotFound_def)

lemma GetPerson_Inr_some:
  "ParseUint s = Inr i \<Longrightarrow> lookup_io e = IoOk \<Longrightarrow> find (\<lambda>p. ID p = i) (rows st) = Some p \<Longrightarrow>
   GetPerson e st s = JSON 200 (PersonBody (ToResponse p))"
  by (simp add: GetPerson_def db_First_def StatusOK_def)

lemma GetPerson_Inr_status:
  assumes "ParseUint s = Inr i"
  shows "status (GetPerson e st s) \<in> {200, 404, 500}"
proof (cases "lookup_io e")
  case IoFail
  with assms show ?thesis by (simp add: GetPerson_Inr_fail)
next
  case IoOk
  with assms show ?thesis
    by (cases "find (\<lambda>p. ID p = i) (rows st)")
       (simp_all add: GetPerson_Inr_none GetPerson_Inr_some)
qed

lemma SavePerson_bind_error:
  "ShouldBindJSON L b = Inl err \<Longrightarrow>
   SavePerson L e st b =
     (JSON 400 (ErrorBody \<lparr> Error = ''Invalid request: '' @ err_Error L err \<rparr>), st)"
  by (simp add: SavePerson_def StatusBadRequest_def)

lemma SavePerson_found:
  "ShouldBindJSON L b = Inr req \<Longrightarrow>
   db_Where_external_id_First (lookup_io e) st (req_ExternalID req) = Inr p \<Longrightarrow>
   SavePerson L e st b =
     (JSON 409 (ErrorBody \<lparr> Error = ''Person with this external_id already exists'' \<rparr>), st)"
  by (simp add: SavePerson_def StatusConflict_def)

lemma SavePerson_insert_error:
  "ShouldBindJSON L b = Inr req \<Longrightarrow>
   db_Where_external_id_First (lookup_io e) st (req_ExternalID req) = Inl err \<Longrightarrow>
   db_Create (insert_io e) (new_uuid e) (clock e) st (FromSaveRequest req) = Inl err' \<Longrightarrow>
   SavePerson L e st b =
     (JSON 500 (ErrorBody \<lparr> Error = ''Failed to save person'' \<rparr>), st)"
  by (simp add: SavePerson_def StatusInternalServerError_def)

lemma SavePerson_inserted:
  "ShouldBindJSON L b = Inr req \<Longrightarrow>
   db_Where_external_id_First (lookup_io e) st (req_ExternalID req) = Inl err \<Longrightarrow>
   db_Create (insert_io e) (new_uuid e) (clock e) st (FromSaveRequest req) = Inr (p, st') \<Longrightarrow>
   SavePerson L e st b = (JSON 201 (PersonBody (ToResponse p)), st')"
  by (simp add: SavePerson_def StatusCreated_def)

lemma BeforeCreate_bound:
  "ShouldBindJSON L b = Inr req \<Longrightarrow>
   BeforeCreate fresh (FromSaveRequest req) = FromSaveRequest req"
  by (simp add: BeforeCreate_def FromSaveRequest_def bound_external_id_not_Nil)

lemma db_Create_bound_Inr:
  assumes "ShouldBindJSON L b = Inr req"
    and "req_ExternalID req \<notin> set (external_ids st)"
  shows "db_Create IoOk fresh now st (FromSaveRequest req) =
           Inr ((FromSaveRequest req)\<lparr>CreatedAt := now, UpdatedAt := now, ID := next_id st\<rparr>,
                \<lparr> rows = rows st
                    @ [(FromSaveRequest req)\<lparr>CreatedAt := now, UpdatedAt := now,
                                              ID := next_id st\<rparr>],
                  next_id = Suc (next_id st) \<rparr>)"
  using assms(2) BeforeCreate_bound [OF assms(1), of fresh]
  by (simp add: db_Create_def Let_def external_ids_def FromSaveRequest_def auto_time_def)

lemma db_Create_Inr_shape:
  "db_Create out fresh now st p0 = Inr (p, st') \<Longrightarrow>
   out = IoOk \<and> rows st' = rows st @ [p] \<and> ExternalID p \<notin> set (external_ids st)
   \<and> ExternalID p = ExternalID (BeforeCreate fresh p0)"
  by (cases out) (auto simp: db_Create_def Let_def external_ids_def split: if_splits)

lemma SavePerson_cases:
  "(\<exists>err. ShouldBindJSON L b = Inl err \<and> snd (SavePerson L e st b) = st)
   \<or> (\<exists>req. ShouldBindJSON L b = Inr req \<and> snd (SavePerson L e st b) = st)
   \<or> (\<exists>req p st'. ShouldBindJSON L b = Inr req
         \<and> db_Create (insert_io e) (new_uuid e) (clock e) st (FromSaveRequest req) = Inr (p, st')
         \<and> SavePerson L e st b = (JSON 201 (PersonBody (ToResponse p)), st'))"
proof (cases "ShouldBindJSON L b")
  case (Inl err)
  then show ?thesis by (simp add: SavePerson_bind_error)
next
  case (Inr req)
  show ?thesis
  proof (cases "db_Where_external_id_First (lookup_io e) st (req_ExternalID req)")
    case found: (Inr p)
    from SavePerson_found [OF Inr found] Inr show ?thesis by simp
  next
    case absent: (Inl err)
    show ?thesis
    proof (cases "db_Create (insert_io e) (new_uuid e) (clock e) st (FromSaveRequest req)")
      case (Inl err')
      from SavePerson_insert_error [OF Inr absent Inl] Inr show ?thesis by simp
    next
      case created: (Inr r)
      obtain p st' where r: "r = (p, st')" by (cases r)
      from SavePerson_inserted [OF Inr absent created [unfolded r]] Inr created r
      show ?thesis by simp
    qed
  qed
qed

lemma SavePerson_distinct:
  assumes "distinct (external_ids st)"
  shows "distinct (external_ids (snd (SavePerson L e st b)))"
proof -
  from SavePerson_cases [of L b e st] consider
      "snd (SavePerson L e st b) = st"
    | req p st' where
        "db_Create (insert_io e) (new_uuid e) (clock e) st (FromSaveRequest req) = Inr (p, st')"
        "SavePerson L e st b = (JSON 201 (PersonBody (ToResponse p)), st')"
    by blast
  then show ?thesis
  proof cases
    case 1
    with assms show ?thesis by simp
  next
    case 2
    from db_Create_distinct [OF 2(1) assms] 2(2) show ?thesis by simp
  qed
qed

lemma serve_distinct:
  "distinct (external_ids st) \<Longrightarrow> distinct (external_ids (snd (serve L e st r)))"
  by (cases r) (simp_all add: serve_def SavePerson_distinct)

text \<open>
  A lookup that fails is taken for absence. With a duplicate in the table the insert is
  then refused by the unique column, so the table stays as it was and the answer is 500.
\<close>

lemma SavePerson_duplicate_lookup_failed:
  assumes "ShouldBindJSON L b = Inr req"
    and "req_ExternalID req \<in> set (external_ids st)"
    and "lookup_io e = IoFail"
  shows "SavePerson L e st b =
           (JSON 500 (ErrorBody \<lparr> Error = ''Failed to save person'' \<rparr>), st)"
proof -
  from assms(3) have l: "db_Where_external_id_First (lookup_io e) st (req_ExternalID req)
                           = Inl ErrStorage"
    by (simp add: lookup_failed)
  have "ExternalID (FromSaveRequest req) \<noteq> uuid_Nil"
    using bound_external_id_not_Nil [OF assms(1)] by (simp add: FromSaveRequest_def)
  moreover have "ExternalID (FromSaveRequest req) \<in> set (external_ids st)"
    using assms(2) by (simp add: FromSaveRequest_def)
  ultimately obtain err where
    "db_Create (insert_io e) (new_uuid e) (clock e) st (FromSaveRequest req) = Inl err"
    using db_Create_Inl_store by blast
  from SavePerson_insert_error [OF assms(1) l this] show ?thesis .
qed

text \<open>An insert that fails is answered 500 and leaves the table as it was.\<close>

lemma SavePerson_insert_failed:
  assumes "ShouldBindJSON L b = Inr req"
    and "req_ExternalID req \<notin> set (external_ids st)"
    and "insert_io e = IoFail"
  shows "SavePerson L e st b =
           (JSON 500 (ErrorBody \<lparr> Error = ''Failed to save person'' \<rparr>), st)"
proof -
  from lookup_absent [OF assms(2)] obtain err where
    l: "db_Where_external_id_First (lookup_io e) st (req_ExternalID req) = Inl err"
    by blast
  from assms(3)
  have "db_Create (insert_io e) (new_uuid e) (clock e) st (FromSaveRequest req) = Inl ErrStorage"
    by (simp add: db_Create_failed)
  from SavePerson_insert_error [OF assms(1) l this] show ?thesis .
qed

text \<open>A lookup that fails never leads to 409.\<close>

lemma SavePerson_lookup_failed_no_conflict:
  "lookup_io e = IoFail \<Longrightarrow> status (fst (SavePerson L e st b)) \<noteq> 409"
  by (auto simp: SavePerson_def lookup_failed Let_def StatusBadRequest_def
      StatusInternalServerError_def StatusCreated_def split: sum.splits)

section \<open>The sample request, evaluated\<close>

lemmas sample_eval =
  sample_lib_def sample_object_def sample_request_def sample_email_ok_def sample_uuid_def
  sample_time_def sample_env_def sample_store_def sample_person_def empty_store_def
  uuid_Nil_def time_zero_def

lemma sample_first_save:
  "SavePerson sample_lib (sample_env out IoOk) empty_store (JObject sample_object) =
     (JSON 201 (PersonBody \<lparr> resp_ExternalID = sample_uuid, resp_Name = ''John Doe'',
                             resp_Email = ''john@example.com'',
                             resp_DateOfBirth = sample_time \<rparr>),
      sample_store)"
proof -
  have absent: "req_ExternalID sample_request \<notin> set (external_ids empty_store)"
    by (simp add: external_ids_def empty_store_def)
  from lookup_absent [OF absent] obtain err where
    l: "db_Where_external_id_First (lookup_io (sample_env out IoOk)) empty_store
          (req_ExternalID sample_request) = Inl err"
    by blast
  have c: "db_Create (insert_io (sample_env out IoOk)) (new_uuid (sample_env out IoOk))
             (clock (sample_env out IoOk)) empty_store (FromSaveRequest sample_request)
           = Inr (sample_person, sample_store)"
    by (simp add: db_Create_def BeforeCreate_def FromSaveRequest_def Let_def auto_time_def
        sample_eval)
  from SavePerson_inserted [OF sample_binds l c]
  show ?thesis by (simp add: ToResponse_def sample_person_def)
qed

lemma sample_run:
  "run sample_lib empty_store
     [(sample_env IoOk IoOk, Save (JObject sample_object)),
      (sample_env IoFail IoOk, Save (JObject sample_object)),
      (sample_env IoOk IoOk, Get ''1''),
      (sample_env IoOk IoOk, Health)] = sample_store"
proof -
  have dup: "req_ExternalID sample_request \<in> set (external_ids sample_store)"
    by (simp add: sample_request_def external_ids_def sample_store_def sample_person_def)
  have io: "lookup_io (sample_env IoFail IoOk) = IoFail"
    by (simp add: sample_env_def)
  from sample_first_save [of IoOk] SavePerson_duplicate_lookup_failed [OF sample_binds dup io]
  show ?thesis by (simp add: serve_def)
qed

section \<open>The response mapper\<close>

text \<open>
  Claim C8. The response mapper is a total function of the Person alone: for every Person
  it returns exactly the external identifier, name, email and date of birth of that Person,
  and its result does not depend on the internal identifier or on the creation and update
  timestamps (the response type has no such fields).
\<close>

theorem ToResponse_projects:
  "resp_ExternalID (ToResponse p) = ExternalID p
   \<and> resp_Name (ToResponse p) = Name p
   \<and> resp_Email (ToResponse p) = Email p
   \<and> resp_DateOfBirth (ToResponse p) = DateOfBirth p
   \<and> ToResponse (p\<lparr>ID := i, CreatedAt := c, UpdatedAt := u\<rparr>) = ToResponse p"
  by (simp add: ToResponse_def)

theorem ToResponse_projects_witness:
  "ToResponse sample_person =
     \<lparr> resp_ExternalID = sample_uuid, resp_Name = ''John Doe'',
       resp_Email = ''john@example.com'', resp_DateOfBirth = sample_time \<rparr>
   \<and> ToResponse (sample_person\<lparr>ID := 7, CreatedAt := 0, UpdatedAt := 0\<rparr>)
       = ToResponse sample_person"
  using ToResponse_projects [of sample_person 7 0 0]
  by (simp add: ToResponse_def sample_person_def)

section \<open>Saving\<close>

text \<open>
  Claim C1. Whenever the table holds a record with external identifier X and a valid save
  request carries X, the table is the same after SavePerson; and, the lookup statement
  succeeding, the answer is 409 with the message
  "Person with this external_id already exists", which contains "already exists". A
  table that held exactly one record with X still holds exactly one.
\<close>

theorem SavePerson_conflict:
  assumes "ShouldBindJSON L b = Inr req"
    and "req_ExternalID req \<in> set (external_ids st)"
  shows "snd (SavePerson L e st b) = st
       \<and> (lookup_io e = IoOk \<longrightarrow>
            fst (SavePerson L e st b) =
              JSON 409
                (ErrorBody \<lparr> Error = ''Person with this external_id already exists'' \<rparr>))
       \<and> Contains ''Person with this external_id already exists'' ''already exists''
       \<and> (count_list (external_ids st) (req_ExternalID req) = 1 \<longrightarrow>
            count_list (external_ids (snd (SavePerson L e st b))) (req_ExternalID req) = 1)"
proof (cases "lookup_io e")
  case IoOk
  with lookup_found [OF assms(2)] obtain p where
    "db_Where_external_id_First (lookup_io e) st (req_ExternalID req) = Inr p"
    by auto
  from SavePerson_found [OF assms(1) this] show ?thesis by simp
next
  case IoFail
  from SavePerson_duplicate_lookup_failed [OF assms IoFail] IoFail show ?thesis by simp
qed

theorem SavePerson_conflict_witness:
  "ShouldBindJSON sample_lib (JObject sample_object) = Inr sample_request
   \<and> req_ExternalID sample_request \<in> set (external_ids sample_store)
   \<and> lookup_io (sample_env IoOk IoOk) = IoOk
   \<and> SavePerson sample_lib (sample_env IoOk IoOk) sample_store (JObject sample_object) =
       (JSON 409 (ErrorBody \<lparr> Error = ''Person with this external_id already exists'' \<rparr>),
        sample_store)
   \<and> count_list (external_ids sample_store) sample_uuid = 1"
proof -
  have h2: "req_ExternalID sample_request \<in> set (external_ids sample_store)"
    by (simp add: sample_request_def external_ids_def sample_store_def sample_person_def)
  have h3: "lookup_io (sample_env IoOk IoOk) = IoOk"
    by (simp add: sample_env_def)
  have c: "count_list (external_ids sample_store) sample_uuid = 1"
    by (simp add: external_ids_def sample_store_def sample_person_def)
  from SavePerson_conflict [OF sample_binds h2, of "sample_env IoOk IoOk"] sample_binds h2 h3 c
  show ?thesis by (simp add: prod_eq_iff)
qed

text \<open>
  Claim C4. For every valid save request whose external identifier the table does not
  hold (the statements of the request succeeding), SavePerson answers 201 and the body
  carries exactly the external identifier, name, email and date of birth of the request:
  it is \<open>ToResponse (FromSaveRequest req)\<close>, whose four fields are those of the request.
\<close>

theorem SavePerson_created_echo:
  assumes "ShouldBindJSON L b = Inr req"
    and "req_ExternalID req \<notin> set (external_ids st)"
    and "lookup_io e = IoOk"
    and "insert_io e = IoOk"
  shows "fst (SavePerson L e st b) =
           JSON 201 (PersonBody \<lparr> resp_ExternalID = req_ExternalID req,
                                   resp_Name = req_Name req,
                                   resp_Email = req_Email req,
                                   resp_DateOfBirth = req_DateOfBirth req \<rparr>)
       \<and> fst (SavePerson L e st b) = JSON 201 (PersonBody (ToResponse (FromSaveRequest req)))
       \<and> resp_ExternalID (ToResponse (FromSaveRequest req)) = req_ExternalID req
       \<and> resp_Name (ToResponse (FromSaveRequest req)) = req_Name req
       \<and> resp_Email (ToResponse (FromSaveRequest req)) = req_Email req
       \<and> resp_DateOfBirth (ToResponse (FromSaveRequest req)) = req_DateOfBirth req"
proof -
  from lookup_absent [OF assms(2)] obtain err where
    absent: "db_Where_external_id_First (lookup_io e) st (req_ExternalID req) = Inl err"
    by blast
  from db_Create_bound_Inr [OF assms(1,2), of "new_uuid e" "clock e"] assms(4)
  have "db_Create (insert_io e) (new_uuid e) (clock e) st (FromSaveRequest req) =
          Inr ((FromSaveRequest req)\<lparr>CreatedAt := clock e, UpdatedAt := clock e,
                                      ID := next_id st\<rparr>,
               \<lparr> rows = rows st
                   @ [(FromSaveRequest req)\<lparr>CreatedAt := clock e, UpdatedAt := clock e,
                                             ID := next_id st\<rparr>],
                 next_id = Suc (next_id st) \<rparr>)"
    by simp
  from SavePerson_inserted [OF assms(1) absent this]
  show ?thesis by (simp add: ToResponse_def FromSaveRequest_def)
qed

theorem SavePerson_created_echo_witness:
  "ShouldBindJSON sample_lib (JObject sample_object) = Inr sample_request
   \<and> req_ExternalID sample_request \<notin> set (external_ids empty_store)
   \<and> lookup_io (sample_env IoOk IoOk) = IoOk
   \<and> insert_io (sample_env IoOk IoOk) = IoOk
   \<and> fst (SavePerson sample_lib (sample_env IoOk IoOk) empty_store (JObject sample_object)) =
       JSON 201 (PersonBody \<lparr> resp_ExternalID = sample_uuid, resp_Name = ''John Doe'',
                               resp_Email = ''john@example.com'',
                               resp_DateOfBirth = sample_time \<rparr>)"
proof -
  have h2: "req_ExternalID sample_request \<notin> set (external_ids empty_store)"
    by (simp add: external_ids_def empty_store_def)
  have h3: "lookup_io (sample_env IoOk IoOk) = IoOk"
    and h4: "insert_io (sample_env IoOk IoOk) = IoOk"
    by (simp_all add: sample_env_def)
  from SavePerson_created_echo [OF sample_binds h2 h3 h4] sample_binds h2 h3 h4
  show ?thesis by (simp add: sample_request_def)
qed

text \<open>
  Claim C5. SavePerson answers 400 with the binding error after "Invalid request: ",
  and leaves the table as it was, whenever one of the members external_id, name, email,
  date_of_birth is absent from the body, or external_id is a string that is not a valid
  UUID, or email is a string that does not pass the email rule, or date_of_birth is a
  string that is not a parseable timestamp.
\<close>

theorem SavePerson_validation_failure:
  assumes "j_external_id obj = None \<or> j_name obj = None \<or> j_email obj = None
           \<or> j_date_of_birth obj = None
           \<or> (\<exists>s. j_external_id obj = Some (JString s) \<and> uuid_UnmarshalText L s = None)
           \<or> (\<exists>s. j_email obj = Some (JString s) \<and> \<not> validator_email L s)
           \<or> (\<exists>s. j_date_of_birth obj = Some (JString s) \<and> time_UnmarshalJSON L s = None)"
  shows "\<exists>err. SavePerson L e st (JObject obj) =
           (JSON 400 (ErrorBody \<lparr> Error = ''Invalid request: '' @ err_Error L err \<rparr>), st)"
proof -
  from invalid_object_not_bound [OF assms] ShouldBindJSON_Inl_or_Inr [of L "JObject obj"]
  obtain err where "ShouldBindJSON L (JObject obj) = Inl err"
    by blast
  from SavePerson_bind_error [OF this] show ?thesis by blast
qed

theorem SavePerson_validation_failure_witness:
  "j_name (sample_object\<lparr>j_name := None\<rparr>) = None
   \<and> (\<exists>err. SavePerson sample_lib (sample_env IoOk IoOk) sample_store
              (JObject (sample_object\<lparr>j_name := None\<rparr>)) =
         (JSON 400 (ErrorBody \<lparr> Error = ''Invalid request: '' @ err_Error sample_lib err \<rparr>),
          sample_store))"
proof -
  have h: "j_name (sample_object\<lparr>j_name := None\<rparr>) = None" by simp
  from SavePerson_validation_failure
         [of "sample_object\<lparr>j_name := None\<rparr>" sample_lib "sample_env IoOk IoOk" sample_store]
       h
  show ?thesis by simp
qed

text \<open>
  Claim C9. A save request whose external_id parses to the all-zero UUID is answered 400
  and changes nothing: decoding leaves the zero value in the field and the \<open>required\<close>
  rule reports it. Hence a request that binds never has the nil external identifier, the
  branch of BeforeCreate that draws a fresh UUID leaves its Person as it is, and a record
  SavePerson appends to the table carries the external identifier parsed from the
  client's string, whatever \<open>uuid.New()\<close> would have returned.
\<close>

theorem SavePerson_nil_external_id:
  "(j_external_id obj = Some (JString s) \<and> uuid_UnmarshalText L s = Some uuid_Nil \<longrightarrow>
      (\<exists>err. SavePerson L e st (JObject obj) =
         (JSON 400 (ErrorBody \<lparr> Error = ''Invalid request: '' @ err_Error L err \<rparr>), st))
      \<and> (\<forall>req. json_Unmarshal L (JObject obj) = Some req \<longrightarrow>
            (\<exists>es. ShouldBindJSON L (JObject obj)
                    = Inl (ValidationErrors ((''ExternalID'', ''required'') # es)))))
   \<and> (\<forall>req. ShouldBindJSON L b = Inr req \<longrightarrow>
         req_ExternalID req \<noteq> uuid_Nil
         \<and> BeforeCreate (new_uuid e) (FromSaveRequest req) = FromSaveRequest req)
   \<and> (snd (SavePerson L e st b) = st
       \<or> (\<exists>req p. ShouldBindJSON L b = Inr req
             \<and> rows (snd (SavePerson L e st b)) = rows st @ [p]
             \<and> ExternalID p = req_ExternalID req
             \<and> (\<forall>obj' s'. b = JObject obj' \<and> j_external_id obj' = Some (JString s') \<longrightarrow>
                   uuid_UnmarshalText L s' = Some (ExternalID p))))"
proof (intro conjI impI allI)
  assume a: "j_external_id obj = Some (JString s) \<and> uuid_UnmarshalText L s = Some uuid_Nil"
  have nb: "ShouldBindJSON L (JObject obj) \<noteq> Inr req" for req
  proof
    assume bound: "ShouldBindJSON L (JObject obj) = Inr req"
    then have "json_Unmarshal L (JObject obj) = Some req"
      by (simp add: ShouldBindJSON_Inr)
    with a have "req_ExternalID req = uuid_Nil"
      by (simp add: json_Unmarshal_Some)
    with bound_external_id_not_Nil [OF bound] show False by simp
  qed
  with ShouldBindJSON_Inl_or_Inr [of L "JObject obj"]
  obtain err where "ShouldBindJSON L (JObject obj) = Inl err" by blast
  from SavePerson_bind_error [OF this]
  show "\<exists>err. SavePerson L e st (JObject obj) =
         (JSON 400 (ErrorBody \<lparr> Error = ''Invalid request: '' @ err_Error L err \<rparr>), st)"
    by blast
next
  fix req
  assume a: "j_external_id obj = Some (JString s) \<and> uuid_UnmarshalText L s = Some uuid_Nil"
    and dec: "json_Unmarshal L (JObject obj) = Some req"
  from a dec have "req_ExternalID req = uuid_Nil"
    by (simp add: json_Unmarshal_Some)
  then have "\<exists>es. validate L req = (''ExternalID'', ''required'') # es"
    by (simp add: validate_def)
  with dec show "\<exists>es. ShouldBindJSON L (JObject obj)
                    = Inl (ValidationErrors ((''ExternalID'', ''required'') # es))"
    by (auto simp: ShouldBindJSON_def)
next
  fix req
  assume "ShouldBindJSON L b = Inr req"
  then show "req_ExternalID req \<noteq> uuid_Nil"
    by (rule bound_external_id_not_Nil)
next
  fix req
  assume "ShouldBindJSON L b = Inr req"
  then show "BeforeCreate (new_uuid e) (FromSaveRequest req) = FromSaveRequest req"
    by (rule BeforeCreate_bound)
next
  from SavePerson_cases [of L b e st] consider
      "snd (SavePerson L e st b) = st"
    | req p st' where "ShouldBindJSON L b = Inr req"
        "db_Create (insert_io e) (new_uuid e) (clock e) st (FromSaveRequest req) = Inr (p, st')"
        "SavePerson L e st b = (JSON 201 (PersonBody (ToResponse p)), st')"
    by blast
  then show "snd (SavePerson L e st b) = st
       \<or> (\<exists>req p. ShouldBindJSON L b = Inr req
             \<and> rows (snd (SavePerson L e st b)) = rows st @ [p]
             \<and> ExternalID p = req_ExternalID req
             \<and> (\<forall>obj' s'. b = JObject obj' \<and> j_external_id obj' = Some (JString s') \<longrightarrow>
                   uuid_UnmarshalText L s' = Some (ExternalID p)))"
  proof cases
    case 1
    then show ?thesis by simp
  next
    case 2
    from db_Create_Inr_shape [OF 2(2)] BeforeCreate_bound [OF 2(1), of "new_uuid e"]
    have r: "rows st' = rows st @ [p]" and x: "ExternalID p = req_ExternalID req"
      by (simp_all add: FromSaveRequest_def)
    have "uuid_UnmarshalText L s' = Some (ExternalID p)"
      if "b = JObject obj'" "j_external_id obj' = Some (JString s')" for obj' s'
    proof -
      from 2(1) that(1) have "json_Unmarshal L (JObject obj') = Some req"
        by (simp add: ShouldBindJSON_Inr)
      with that(2) x show ?thesis by (simp add: json_Unmarshal_Some)
    qed
    with 2(1,3) r x show ?thesis by auto
  qed
qed

theorem SavePerson_nil_external_id_witness:
  "j_external_id (sample_object\<lparr>j_external_id :=
       Some (JString ''00000000-0000-0000-0000-000000000000'')\<rparr>)
     = Some (JString ''00000000-0000-0000-0000-000000000000'')
   \<and> uuid_UnmarshalText sample_lib ''00000000-0000-0000-0000-000000000000'' = Some uuid_Nil
   \<and> (\<exists>err. SavePerson sample_lib (sample_env IoOk IoOk) empty_store
         (JObject (sample_object\<lparr>j_external_id :=
            Some (JString ''00000000-0000-0000-0000-000000000000'')\<rparr>)) =
         (JSON 400 (ErrorBody \<lparr> Error = ''Invalid request: '' @ err_Error sample_lib err \<rparr>),
          empty_store))
   \<and> ShouldBindJSON sample_lib (JObject sample_object) = Inr sample_request
   \<and> req_ExternalID sample_request \<noteq> uuid_Nil"
proof -
  have h1: "j_external_id (sample_object\<lparr>j_external_id :=
       Some (JString ''00000000-0000-0000-0000-000000000000'')\<rparr>)
     = Some (JString ''00000000-0000-0000-0000-000000000000'')"
    by simp
  have h2: "uuid_UnmarshalText sample_lib ''00000000-0000-0000-0000-000000000000''
              = Some uuid_Nil"
    by (simp add: sample_lib_def)
  from SavePerson_nil_external_id
         [of "sample_object\<lparr>j_external_id :=
                Some (JString ''00000000-0000-0000-0000-000000000000'')\<rparr>"
             "''00000000-0000-0000-0000-000000000000''" sample_lib
             "sample_env IoOk IoOk" empty_store "JObject sample_object"]
       h1 h2 sample_binds
  show ?thesis by blast
qed

section \<open>Getting\<close>

text \<open>
  Claim C6. For a path parameter that parses to the identifier i (and a lookup statement
  that succeeds), GetPerson answers 404 with exactly "Person not found" if and only if
  the table holds no record with internal identifier i. If it holds one, the answer is 200
  with the mapped representation of a record with that identifier: of the record, since
  the primary key admits one only.
\<close>

theorem GetPerson_lookup:
  assumes "ParseUint idStr = Inr i"
    and "lookup_io e = IoOk"
  shows "(GetPerson e st idStr = JSON 404 (ErrorBody \<lparr> Error = ''Person not found'' \<rparr>))
           = (i \<notin> set (map ID (rows st)))
       \<and> (i \<in> set (map ID (rows st)) \<longrightarrow>
            (\<exists>p \<in> set (rows st). ID p = i
               \<and> GetPerson e st idStr = JSON 200 (PersonBody (ToResponse p))))
       \<and> (distinct (map ID (rows st)) \<longrightarrow>
            (\<forall>p \<in> set (rows st). ID p = i \<longrightarrow>
               GetPerson e st idStr = JSON 200 (PersonBody (ToResponse p))))"
proof (cases "find (\<lambda>p. ID p = i) (rows st)")
  case None
  then have absent: "i \<notin> set (map ID (rows st))"
    by (auto simp: find_None_iff)
  from GetPerson_Inr_none [OF assms None] absent show ?thesis by auto
next
  case (Some p)
  then have p: "p \<in> set (rows st)" "ID p = i"
    by (auto simp: find_Some_iff)
  have resp: "GetPerson e st idStr = JSON 200 (PersonBody (ToResponse p))"
    by (rule GetPerson_Inr_some [OF assms Some])
  have uniq: "q = p" if "distinct (map ID (rows st))" "q \<in> set (rows st)" "ID q = i" for q
  proof -
    from that(1) have "inj_on ID (set (rows st))" by (simp add: distinct_map)
    with p that(2,3) show ?thesis by (auto dest: inj_onD)
  qed
  from p resp uniq show ?thesis by auto
qed

theorem GetPerson_lookup_witness:
  "ParseUint ''1'' = Inr 1
   \<and> lookup_io (sample_env IoOk IoOk) = IoOk
   \<and> 1 \<in> set (map ID (rows sample_store))
   \<and> (\<exists>p \<in> set (rows sample_store). ID p = 1
        \<and> GetPerson (sample_env IoOk IoOk) sample_store ''1''
            = JSON 200 (PersonBody (ToResponse p)))
   \<and> ParseUint ''999999'' = Inr 999999
   \<and> 999999 \<notin> set (map ID (rows sample_store))
   \<and> GetPerson (sample_env IoOk IoOk) sample_store ''999999''
       = JSON 404 (ErrorBody \<lparr> Error = ''Person not found'' \<rparr>)"
proof -
  have h1: "ParseUint ''1'' = Inr 1" by (simp add: ParseUint_eval)
  have h1': "ParseUint ''999999'' = Inr 999999" by (simp add: ParseUint_eval)
  have h2: "lookup_io (sample_env IoOk IoOk) = IoOk" by (simp add: sample_env_def)
  have m: "1 \<in> set (map ID (rows sample_store))"
    and n: "999999 \<notin> set (map ID (rows sample_store))"
    by (simp_all add: sample_store_def sample_person_def)
  from GetPerson_lookup [OF h1 h2, of sample_store]
       GetPerson_lookup [OF h1' h2, of sample_store] h1 h1' h2 m n
  show ?thesis by blast
qed

text \<open>
  Claim C3, as the specification words it, does not hold: the path parameter "0" is not a
  positive integer, yet GetPerson goes on to the lookup and answers 404; and
  "4294967296" is a positive integer, yet GetPerson answers 400 "Invalid ID format".
\<close>

theorem GetPerson_positive_integer_counterexample:
  "\<not> spec_positive_integer ''0''
   \<and> GetPerson (sample_env IoOk IoOk) empty_store ''0''
       = JSON 404 (ErrorBody \<lparr> Error = ''Person not found'' \<rparr>)
   \<and> spec_positive_integer ''4294967296''
   \<and> GetPerson (sample_env IoOk IoOk) empty_store ''4294967296''
       = JSON 400 (ErrorBody \<lparr> Error = ''Invalid ID format'' \<rparr>)"
proof -
  have z: "ParseUint ''0'' = Inr 0" by (simp add: ParseUint_eval)
  have big: "ParseUint ''4294967296'' = Inl ErrRange" by (simp add: ParseUint_eval)
  have io: "lookup_io (sample_env IoOk IoOk) = IoOk" by (simp add: sample_env_def)
  have none: "find (\<lambda>p. ID p = 0) (rows empty_store) = None" by (simp add: empty_store_def)
  have "\<not> spec_positive_integer ''0''"
    by (simp add: spec_positive_integer_def decimal_def digit_val_def)
  moreover have "spec_positive_integer ''4294967296''"
    by (simp add: spec_positive_integer_def decimal_def digit_val_def is_digit_def)
  ultimately show ?thesis
    using GetPerson_Inr_none [OF z io none] GetPerson_Inl [OF big] by simp
qed

text \<open>
  Claim C3, amended. GetPerson answers 400 with "Invalid ID format" if and only if the
  path parameter is not an unsigned 32-bit decimal number, that is, unless it is a
  non-empty string of decimal digits whose value is at most 4294967295 (zero included).
  For such a parameter GetPerson goes on to the lookup of that value: the answer is 500 if
  and only if the lookup statement fails, 404 if and only if it succeeds and finds no
  record with that internal identifier, and 200 otherwise.
\<close>

theorem GetPerson_invalid_id_iff:
  "((GetPerson e st s = JSON 400 (ErrorBody \<lparr> Error = ''Invalid ID format'' \<rparr>))
      = (\<not> (s \<noteq> [] \<and> list_all is_digit s \<and> decimal s \<le> 4294967295)))
   \<and> (s \<noteq> [] \<and> list_all is_digit s \<and> decimal s \<le> 4294967295 \<longrightarrow>
        ParseUint s = Inr (decimal s)
        \<and> status (GetPerson e st s) \<in> {200, 404, 500}
        \<and> (status (GetPerson e st s) = 500) = (lookup_io e = IoFail)
        \<and> (status (GetPerson e st s) = 404)
            = (lookup_io e = IoOk \<and> decimal s \<notin> set (map ID (rows st))))"
proof (cases "ParseUint s")
  case (Inl err)
  with ParseUint_Inl_iff [of s]
  have "\<not> (s \<noteq> [] \<and> list_all is_digit s \<and> decimal s \<le> 4294967295)"
    by (auto simp: maxVal_def)
  with GetPerson_Inl [OF Inl] show ?thesis by simp
next
  case (Inr i)
  with ParseUint_char [of s i]
  have ok: "s \<noteq> [] \<and> list_all is_digit s \<and> decimal s \<le> 4294967295" and i: "i = decimal s"
    by (simp_all add: maxVal_def)
  from GetPerson_Inr_status [OF Inr, of e st]
  have range: "status (GetPerson e st s) \<in> {200, 404, 500}" .
  then have not400: "GetPerson e st s \<noteq> JSON 400 (ErrorBody \<lparr> Error = ''Invalid ID format'' \<rparr>)"
    by auto
  have split: "(status (GetPerson e st s) = 500) = (lookup_io e = IoFail)
        \<and> (status (GetPerson e st s) = 404)
            = (lookup_io e = IoOk \<and> i \<notin> set (map ID (rows st)))"
  proof (cases "lookup_io e")
    case IoFail
    with GetPerson_Inr_fail [OF Inr IoFail, of st] show ?thesis by simp
  next
    case IoOk
    show ?thesis
    proof (cases "find (\<lambda>p. ID p = i) (rows st)")
      case None
      then have "i \<notin> set (map ID (rows st))" by (auto simp: find_None_iff)
      with GetPerson_Inr_none [OF Inr IoOk None] IoOk show ?thesis by simp
    next
      case (Some p)
      then have "i \<in> set (map ID (rows st))" by (auto simp: find_Some_iff)
      with GetPerson_Inr_some [OF Inr IoOk Some] IoOk show ?thesis by simp
    qed
  qed
  from ok i Inr range not400 split show ?thesis by simp
qed

theorem GetPerson_invalid_id_iff_witness:
  "GetPerson (sample_env IoOk IoOk) sample_store ''invalid-id''
     = JSON 400 (ErrorBody \<lparr> Error = ''Invalid ID format'' \<rparr>)
   \<and> \<not> list_all is_digit ''invalid-id''
   \<and> list_all is_digit ''0'' \<and> decimal ''0'' \<le> 4294967295
   \<and> ParseUint ''0'' = Inr (decimal ''0'')
   \<and> status (GetPerson (sample_env IoOk IoOk) sample_store ''0'') = 404"
proof -
  have a: "\<not> list_all is_digit ''invalid-id''" by (simp add: is_digit_def)
  have b: "''0'' \<noteq> [] \<and> list_all is_digit ''0'' \<and> decimal ''0'' \<le> 4294967295"
    by (simp add: is_digit_def decimal_def digit_val_def)
  have c: "lookup_io (sample_env IoOk IoOk) = IoOk" by (simp add: sample_env_def)
  have d: "decimal ''0'' \<notin> set (map ID (rows sample_store))"
    by (simp add: decimal_def digit_val_def sample_store_def sample_person_def)
  from GetPerson_invalid_id_iff [of "sample_env IoOk IoOk" sample_store "''invalid-id''"]
       GetPerson_invalid_id_iff [of "sample_env IoOk IoOk" sample_store "''0''"]
       a b c d
  show ?thesis by blast
qed

section \<open>Storage failures\<close>

text \<open>
  Claim C2 is not met by SavePerson. The sample request against the empty table, with a
  lookup statement that fails with a storage error and an insert that succeeds: the
  handler tests the lookup for \<open>err == nil\<close> only, takes the failed lookup for "no such
  record", inserts the row and answers 201. GetPerson, for its own lookup, tells
  \<open>gorm.ErrRecordNotFound\<close> from other errors and answers 500 for those.
\<close>

theorem SavePerson_lookup_failure_answers_created:
  "db_Where_external_id_First (lookup_io (sample_env IoFail IoOk)) empty_store sample_uuid
     = Inl ErrStorage
   \<and> ShouldBindJSON sample_lib (JObject sample_object) = Inr sample_request
   \<and> SavePerson sample_lib (sample_env IoFail IoOk) empty_store (JObject sample_object) =
       (JSON 201 (PersonBody \<lparr> resp_ExternalID = sample_uuid, resp_Name = ''John Doe'',
                               resp_Email = ''john@example.com'',
                               resp_DateOfBirth = sample_time \<rparr>),
        sample_store)"
  using sample_first_save [of IoFail] sample_binds
  by (simp add: lookup_failed sample_env_def)

section \<open>Sequences of requests\<close>

text \<open>
  Claim C7. Serving any sequence of requests one after the other, whatever the outcomes
  of their database statements, keeps the external identifiers of the table pairwise
  distinct if they were so at the start.
\<close>

theorem run_preserves_distinct_external_ids:
  "distinct (external_ids st) \<Longrightarrow> distinct (external_ids (run L st reqs))"
proof (induction reqs arbitrary: st)
  case Nil
  then show ?case by simp
next
  case (Cons er reqs)
  obtain e r where er: "er = (e, r)" by (cases er)
  from Cons.prems have "distinct (external_ids (snd (serve L e st r)))"
    by (rule serve_distinct)
  then have "distinct (external_ids (run L (snd (serve L e st r)) reqs))"
    by (rule Cons.IH)
  with er show ?case by simp
qed

theorem run_preserves_distinct_external_ids_witness:
  "distinct (external_ids empty_store)
   \<and> distinct (external_ids
        (run sample_lib empty_store
           [(sample_env IoOk IoOk, Save (JObject sample_object)),
            (sample_env IoFail IoOk, Save (JObject sample_object)),
            (sample_env IoOk IoOk, Get ''1''),
            (sample_env IoOk IoOk, Health)]))"
proof (rule conjI)
  show h: "distinct (external_ids empty_store)"
    by (simp add: external_ids_def empty_store_def)
  show "distinct (external_ids
        (run sample_lib empty_store
           [(sample_env IoOk IoOk, Save (JObject sample_object)),
            (sample_env IoFail IoOk, Save (JObject sample_object)),
            (sample_env IoOk IoOk, Get ''1''),
            (sample_env IoOk IoOk, Health)]))"
    by (rule run_preserves_distinct_external_ids [OF h])
qed

section \<open>Health check\<close>

text \<open>
  Claim C10. \<open>GET /health\<close> is answered 200 with the body \<open>{"status":"ok"}\<close>, whatever the
  table holds and whatever the database would do, and the table is left as it was.
\<close>

theorem health_always_ok:
  "serve L e st Health = (JSON 200 (MapBody [(''status'', ''ok'')]), st)"
  by (simp add: serve_def health_def)

theorem health_always_ok_witness:
  "serve sample_lib (sample_env IoFail IoFail) sample_store Health
     = (JSON 200 (MapBody [(''status'', ''ok'')]), sample_store)"
  using health_always_ok [of sample_lib "sample_env IoFail IoFail" sample_store] by simp

end
